theory Spec2Isabelle
  imports Complex_Main "HOL-Library.Word"
begin

section \<open>Python values shared by the three modules\<close>

text \<open>
  Exceptions are values. Every \<^verbatim>\<open>raise\<close>, failed \<^verbatim>\<open>assert\<close>, missing key, failed
  unpacking and read of an unbound local of the embedded functions is a branch that
  returns \<open>Inl\<close> of one of these. \<open>ExternalError\<close> is whatever an external collaborator
  (file client, decoder, tensor library) raises.
\<close>

datatype error =
    AssertionError
  | KeyError string
  | IndexError
  | TypeError
  | ValueError
  | AttributeError
  | UnboundLocalError string
  | ExternalError string

section \<open>Tensors\<close>

text \<open>
  A \<^verbatim>\<open>torch.Tensor\<close> is its shape together with its elements, read by a list of
  indices (one per dimension). An element is the real number the float denotes; the
  arithmetic of the tensor library (rounding included) is not computed here but taken
  as the operations of the record \<open>torch\<close> below.
\<close>

record tensor =
  shape :: "nat list"
  elem :: "nat list \<Rightarrow> real"

text \<open>\<^verbatim>\<open>list(t)\<close>: iteration over the first dimension; a 0-d tensor cannot be iterated.\<close>

definition select0 :: "tensor \<Rightarrow> nat \<Rightarrow> tensor" where
  "select0 t b = \<lparr>shape = tl (shape t), elem = (\<lambda>idx. elem t (b # idx))\<rparr>"

definition list_of_tensor :: "tensor \<Rightarrow> error + tensor list" where
  "list_of_tensor t =
     (case shape t of
        [] \<Rightarrow> Inl TypeError
      | n # rest \<Rightarrow> Inr (map (select0 t) [0..<n]))"

text \<open>
  One bound of a slice \<^verbatim>\<open>lo:hi\<close> over a dimension of size \<open>n\<close>, as Python adjusts it:
  a negative bound counts from the end, and every bound is clamped into \<open>0..n\<close>.
\<close>

definition slice_index :: "int \<Rightarrow> nat \<Rightarrow> nat" where
  "slice_index i n = (if i < 0 then nat (max (i + int n) 0) else min (nat i) n)"

text \<open>\<^verbatim>\<open>f[:, r0:r1, c0:c1]\<close> on a tensor of three dimensions.\<close>

definition slice_hw :: "tensor \<Rightarrow> int \<Rightarrow> int \<Rightarrow> int \<Rightarrow> int \<Rightarrow> error + tensor" where
  "slice_hw f r0 r1 c0 c1 =
     (case shape f of
        [C, H, W] \<Rightarrow>
          (let rlo = slice_index r0 H; rhi = slice_index r1 H;
               clo = slice_index c0 W; chi = slice_index c1 W
           in Inr \<lparr>shape = [C, rhi - rlo, chi - clo],
                   elem = (\<lambda>idx. elem f (map2 (+) [0, rlo, clo] idx))\<rparr>)
      | _ \<Rightarrow> Inl IndexError)"

text \<open>\<^verbatim>\<open>f[None]\<close> and \<^verbatim>\<open>t.squeeze(0)\<close>.\<close>

definition unsqueeze0 :: "tensor \<Rightarrow> tensor" where
  "unsqueeze0 f = \<lparr>shape = 1 # shape f, elem = (\<lambda>idx. elem f (tl idx))\<rparr>"

definition squeeze0 :: "tensor \<Rightarrow> tensor" where
  "squeeze0 t =
     (case shape t of
        [] \<Rightarrow> t
      | n # rest \<Rightarrow> if n = 1 then select0 t 0 else t)"

datatype interp_mode = Nearest | Bilinear | Bicubic

text \<open>
  The operations of the tensor library that the decoder calls:
  \<^verbatim>\<open>F.interpolate(input, size=, mode=, align_corners=)\<close>, the division of a float
  tensor element by a Python float, and its multiplication by one.
\<close>

record torch =
  interpolate :: "tensor \<Rightarrow> nat \<times> nat \<Rightarrow> interp_mode \<Rightarrow> bool \<Rightarrow> error + tensor"
  true_divide :: "real \<Rightarrow> real \<Rightarrow> real"
  mul :: "real \<Rightarrow> real \<Rightarrow> real"

text \<open>\<^verbatim>\<open>f[k, :, :] = f[k, :, :] / s\<close> on a tensor of three dimensions.\<close>

definition div_channel :: "torch \<Rightarrow> nat \<Rightarrow> real \<Rightarrow> tensor \<Rightarrow> error + tensor" where
  "div_channel T k s f =
     (case shape f of
        [C, H, W] \<Rightarrow>
          if k < C
          then Inr (f\<lparr>elem := (\<lambda>idx. case idx of
                                    [] \<Rightarrow> elem f idx
                                  | c # _ \<Rightarrow> if c = k then true_divide T (elem f idx) s
                                            else elem f idx)\<rparr>)
          else Inl IndexError
      | _ \<Rightarrow> Inl IndexError)"

text \<open>\<^verbatim>\<open>flow_results * self.flow_div\<close>.\<close>

definition scale_tensor :: "torch \<Rightarrow> tensor \<Rightarrow> real \<Rightarrow> tensor" where
  "scale_tensor T t s = t\<lparr>elem := (\<lambda>idx. mul T (elem t idx) s)\<rparr>"

section \<open>The decoder's post-processing (\<^verbatim>\<open>base_decoder.py\<close>)\<close>

text \<open>
  The meta information of a sample is a dictionary; the four keys the decoder reads are
  the fields of a record, \<open>None\<close> for a key that is absent. \<open>ori_shape\<close> and
  \<open>img_shape\<close> are tuples of sizes of any length (an image shape may carry the channel
  count), \<open>pad\<close> is \<^verbatim>\<open>((top, bottom), (left, right))\<close> in Python integers,
  \<open>scale_factor\<close> is \<^verbatim>\<open>(w_scale, h_scale)\<close>.
\<close>

record img_meta =
  ori_shape :: "nat list option"
  pad :: "((int \<times> int) \<times> (int \<times> int)) option"
  scale_factor :: "(real \<times> real) option"
  img_shape :: "nat list option"

datatype PixelData = PixelData (data: tensor)

text \<open>
  \<^verbatim>\<open>PixelData(**{'data': value})\<close>: the class of \<^verbatim>\<open>mmengine\<close> asserts that the value
  has two or three dimensions, and gives a value of two dimensions a leading axis.
\<close>

definition new_PixelData :: "tensor \<Rightarrow> error + PixelData" where
  "new_PixelData v =
     (if length (shape v) = 3 then Inr (PixelData v)
      else if length (shape v) = 2 then Inr (PixelData (unsqueeze0 v))
      else Inl AssertionError)"

record FlowDataSample =
  metainfo :: img_meta
  data_fields :: "string \<rightharpoonup> PixelData"

definition new_FlowDataSample :: FlowDataSample where
  "new_FlowDataSample =
     \<lparr>metainfo = \<lparr>ori_shape = None, pad = None, scale_factor = None, img_shape = None\<rparr>,
      data_fields = Map.empty\<rparr>"

definition set_data :: "string \<Rightarrow> PixelData \<Rightarrow> FlowDataSample \<Rightarrow> FlowDataSample" where
  "set_data k v s = s\<lparr>data_fields := (data_fields s)(k \<mapsto> v)\<rparr>"

text \<open>
  Lines 78 to 97 of \<^verbatim>\<open>postprocess_result\<close>: the flow of one sample, reverted with its
  meta information. \<^verbatim>\<open>ori_H, ori_W = img_meta['ori_shape']\<close> raises for a missing key
  and for a tuple that has not two components. The elements of \<^verbatim>\<open>list(flow_results)\<close>
  are tensors, so the test \<^verbatim>\<open>f is not None\<close> holds and its body always runs.
\<close>

definition revert_flow :: "torch \<Rightarrow> img_meta \<Rightarrow> tensor \<Rightarrow> error + tensor" where
  "revert_flow T img_meta f =
     (case ori_shape img_meta of
        None \<Rightarrow> Inl (KeyError ''ori_shape'')
      | Some [ori_H, ori_W] \<Rightarrow>
          (let margins = pad img_meta;
               (w_scale, h_scale) =
                  (case scale_factor img_meta of
                     None \<Rightarrow> (None, None)
                   | Some (w, h) \<Rightarrow> (Some w, Some h))
           in case shape f of
                [C, H, W] \<Rightarrow>
                  (case margins of
                     Some p \<Rightarrow>
                       slice_hw f (fst (fst p)) (int H - snd (fst p))
                                  (fst (snd p)) (int W - snd (snd p))
                   | None \<Rightarrow>
                       if w_scale \<noteq> None \<and> h_scale \<noteq> None
                       then (case interpolate T (unsqueeze0 f) (ori_H, ori_W) Bilinear False of
                               Inl e \<Rightarrow> Inl e
                             | Inr up \<Rightarrow>
                                 (case div_channel T 0 (the w_scale) (squeeze0 up) of
                                    Inl e \<Rightarrow> Inl e
                                  | Inr f0 \<Rightarrow> div_channel T 1 (the h_scale) f0))
                       else Inr f)
              | _ \<Rightarrow> Inl ValueError)
      | Some _ \<Rightarrow> Inl ValueError)"

text \<open>
  The loop \<^verbatim>\<open>for i in range(len(flow_results))\<close>. The \<^verbatim>\<open>return data_samples\<close> of line
  100 is indented into the loop body, so the first iteration returns and the remaining
  indices are never visited; when there is no index at all the function ends without a
  \<^verbatim>\<open>return\<close>, which in Python yields \<^verbatim>\<open>None\<close> (here \<open>Inr None\<close>).
\<close>

fun postprocess_loop ::
  "torch \<Rightarrow> bool \<Rightarrow> tensor list \<Rightarrow> nat list \<Rightarrow> FlowDataSample list
     \<Rightarrow> error + FlowDataSample list option" where
  "postprocess_loop T only_prediction flow_results [] data_samples = Inr None"
| "postprocess_loop T only_prediction flow_results (i # later) data_samples =
     (if only_prediction
      then (case new_PixelData (flow_results ! i) of
              Inl e \<Rightarrow> Inl e
            | Inr pixels \<Rightarrow>
                Inr (Some (data_samples @
                  [set_data ''pred_flow_fw'' pixels new_FlowDataSample])))
      else if i < length data_samples
      then (case revert_flow T (metainfo (data_samples ! i)) (flow_results ! i) of
              Inl e \<Rightarrow> Inl e
            | Inr f \<Rightarrow>
                (case new_PixelData f of
                   Inl e \<Rightarrow> Inl e
                 | Inr pixels \<Rightarrow>
                     Inr (Some (data_samples
                       [i := set_data ''pred_flow_fw'' pixels (data_samples ! i)]))))
      else Inl IndexError)"

definition postprocess_result ::
  "torch \<Rightarrow> tensor \<Rightarrow> FlowDataSample list option \<Rightarrow> error + FlowDataSample list option" where
  "postprocess_result T flow_results data_samples =
     (case list_of_tensor flow_results of
        Inl e \<Rightarrow> Inl e
      | Inr flow_results \<Rightarrow>
          (case data_samples of
             None \<Rightarrow> postprocess_loop T True flow_results [0..<length flow_results] []
           | Some data_samples \<Rightarrow>
               if length flow_results = length data_samples
               then postprocess_loop T False flow_results [0..<length flow_results] data_samples
               else Inl AssertionError))"

text \<open>
  \<^verbatim>\<open>predict_by_feat\<close>; \<^verbatim>\<open>self.flow_div\<close> is set by the concrete decoders and is a
  parameter here.
\<close>

definition predict_by_feat ::
  "torch \<Rightarrow> real \<Rightarrow> tensor \<Rightarrow> FlowDataSample list option \<Rightarrow> error + FlowDataSample list option" where
  "predict_by_feat T flow_div flow_results data_samples =
     (case data_samples of
        None \<Rightarrow> postprocess_result T (scale_tensor T flow_results flow_div) None
      | Some samples \<Rightarrow>
          (case samples of
             [] \<Rightarrow> Inl IndexError
           | s # _ \<Rightarrow>
               (case img_shape (metainfo s) of
                  None \<Rightarrow> Inl (KeyError ''img_shape'')
                | Some sh \<Rightarrow>
                    (case take 2 sh of
                       [H, W] \<Rightarrow>
                         (case interpolate T flow_results (H, W) Bilinear False of
                            Inl e \<Rightarrow> Inl e
                          | Inr resized \<Rightarrow>
                              postprocess_result T (scale_tensor T resized flow_div)
                                (Some samples))
                     | _ \<Rightarrow> Inl ValueError))))"

section \<open>Loading annotations (\<^verbatim>\<open>loading.py\<close>)\<close>

type_synonym bytes = "8 word list"

datatype dtype = UInt8 | Float32 | Float64

text \<open>
  A float \<^verbatim>\<open>numpy.ndarray\<close>, and the \<^verbatim>\<open>uint8\<close> array an image decodes to, whose
  elements are bytes.
\<close>

record ndarray =
  dtype :: dtype
  nd_shape :: "nat list"
  nd_elem :: "nat list \<Rightarrow> real"

record uint8_array =
  u8_shape :: "nat list"
  u8_elem :: "nat list \<Rightarrow> 8 word"

text \<open>
  The values the transform reads from and writes to the \<^verbatim>\<open>results\<close> dictionary: Python's
  \<^verbatim>\<open>None\<close>, a path, an array. The dictionary is a map; \<open>results k = None\<close> is a key that
  is not in it, \<open>results k = Some PNone\<close> a key whose value is \<^verbatim>\<open>None\<close>.
\<close>

datatype pyval = PNone | PStr string | PArray ndarray

type_synonym results = "string \<rightharpoonup> pyval"

text \<open>\<^verbatim>\<open>results.get(k, None)\<close>.\<close>

definition dict_get :: "results \<Rightarrow> string \<Rightarrow> pyval" where
  "dict_get results k = (case results k of None \<Rightarrow> PNone | Some v \<Rightarrow> v)"

datatype imread_flag = Color | Grayscale | Unchanged

text \<open>
  The collaborators of the transform, which are not code of this module: the file client
  of \<^verbatim>\<open>mmcv\<close> (built from its arguments, read with \<^verbatim>\<open>get\<close>), the decoders
  \<^verbatim>\<open>flow_from_bytes\<close>, \<^verbatim>\<open>sparse_flow_from_bytes\<close> and \<^verbatim>\<open>mmcv.imfrombytes\<close> (which
  gives \<^verbatim>\<open>None\<close> for bytes that are no image), and the two float operations of
  \<^verbatim>\<open>numpy\<close> the occlusion masks go through: the division of a number by a number in
  \<^verbatim>\<open>float64\<close>, and the rounding of \<^verbatim>\<open>astype(np.float32)\<close>.
\<close>

record extern =
  FileClient :: "(string \<times> string) list \<Rightarrow> string \<Rightarrow> error + bytes"
  flow_from_bytes :: "bytes \<Rightarrow> string \<Rightarrow> error + ndarray"
  sparse_flow_from_bytes :: "bytes \<Rightarrow> error + ndarray \<times> ndarray"
  imfrombytes :: "bytes \<Rightarrow> imread_flag \<Rightarrow> error + uint8_array option"
  np_true_divide :: "real \<Rightarrow> real \<Rightarrow> real"
  np_float32 :: "real \<Rightarrow> real"

record LoadAnnotations =
  with_occ :: bool
  sparse :: bool
  file_client_args :: "(string \<times> string) list"
  file_client :: "(string \<Rightarrow> error + bytes) option"

text \<open>\<^verbatim>\<open>__init__\<close>; an argument that the caller leaves out is \<open>None\<close> here.\<close>

definition init_LoadAnnotations ::
  "bool option \<Rightarrow> bool option \<Rightarrow> (string \<times> string) list option \<Rightarrow> LoadAnnotations" where
  "init_LoadAnnotations occ sp args =
     \<lparr>with_occ = (case occ of None \<Rightarrow> False | Some b \<Rightarrow> b),
      sparse = (case sp of None \<Rightarrow> False | Some b \<Rightarrow> b),
      file_client_args = (case args of None \<Rightarrow> [(''backend'', ''disk'')] | Some a \<Rightarrow> a),
      file_client = None\<rparr>"

text \<open>\<^verbatim>\<open>self.file_client.get(filename)\<close>.\<close>

definition client_get :: "LoadAnnotations \<Rightarrow> pyval \<Rightarrow> error + bytes" where
  "client_get self filename =
     (case file_client self of
        None \<Rightarrow> Inl AttributeError
      | Some client \<Rightarrow>
          (case filename of
             PStr path \<Rightarrow> client path
           | _ \<Rightarrow> Inl TypeError))"

text \<open>\<^verbatim>\<open>filename[-3:]\<close>.\<close>

definition last3 :: "pyval \<Rightarrow> error + string" where
  "last3 filename =
     (case filename of
        PStr path \<Rightarrow> Inr (drop (length path - 3) path)
      | _ \<Rightarrow> Inl TypeError)"

text \<open>The body of \<^verbatim>\<open>if flow_*_filename is not None\<close> in \<^verbatim>\<open>_load_flow\<close>.\<close>

definition read_flow :: "extern \<Rightarrow> LoadAnnotations \<Rightarrow> pyval \<Rightarrow> error + pyval" where
  "read_flow E self filename =
     (case client_get self filename of
        Inl e \<Rightarrow> Inl e
      | Inr flow_bytes \<Rightarrow>
          (case last3 filename of
             Inl e \<Rightarrow> Inl e
           | Inr suffix \<Rightarrow>
               (case flow_from_bytes E flow_bytes suffix of
                  Inl e \<Rightarrow> Inl e
                | Inr flow \<Rightarrow> Inr (PArray flow))))"

definition load_flow :: "extern \<Rightarrow> LoadAnnotations \<Rightarrow> results \<Rightarrow> error + results" where
  "load_flow E self results =
     (let flow_fw_filename = dict_get results ''flow_fw_path'';
          flow_bw_filename = dict_get results ''flow_bw_path''
      in case (if flow_fw_filename \<noteq> PNone then read_flow E self flow_fw_filename
               else Inr PNone) of
           Inl e \<Rightarrow> Inl e
         | Inr flow_fw \<Rightarrow>
             (case (if flow_bw_filename \<noteq> PNone then read_flow E self flow_bw_filename
                    else Inr PNone) of
                Inl e \<Rightarrow> Inl e
              | Inr flow_bw \<Rightarrow>
                  Inr (results(''gt_flow_fw'' \<mapsto> flow_fw, ''gt_flow_bw'' \<mapsto> flow_bw))))"

text \<open>
  \<^verbatim>\<open>_load_sparse_flow\<close>. The local \<^verbatim>\<open>valid\<close> is assigned in the first branch only: it
  is an option here, \<open>None\<close> while unbound, and reading it unbound raises.
\<close>

definition load_sparse_flow :: "extern \<Rightarrow> LoadAnnotations \<Rightarrow> results \<Rightarrow> error + results" where
  "load_sparse_flow E self results =
     (let flow_fw_filename = dict_get results ''flow_fw_path''
      in case (if flow_fw_filename \<noteq> PNone
               then (case client_get self flow_fw_filename of
                       Inl e \<Rightarrow> Inl e
                     | Inr flow_fw_bytes \<Rightarrow>
                         (case sparse_flow_from_bytes E flow_fw_bytes of
                            Inl e \<Rightarrow> Inl e
                          | Inr (flow_fw, valid) \<Rightarrow> Inr (PArray flow_fw, Some (PArray valid))))
               else Inr (PNone, None)) of
           Inl e \<Rightarrow> Inl e
         | Inr (flow_fw, valid) \<Rightarrow>
             (case valid of
                None \<Rightarrow> Inl (UnboundLocalError ''valid'')
              | Some valid \<Rightarrow>
                  Inr (results(''gt_flow_fw'' \<mapsto> flow_fw, ''gt_flow_bw'' \<mapsto> PNone,
                               ''gt_valid'' \<mapsto> valid))))"

text \<open>\<^verbatim>\<open>(img / 255).astype(np.float32)\<close> on a decoded \<^verbatim>\<open>uint8\<close> image.\<close>

definition divide_u8 :: "extern \<Rightarrow> uint8_array \<Rightarrow> real \<Rightarrow> ndarray" where
  "divide_u8 E img d =
     \<lparr>dtype = Float64, nd_shape = u8_shape img,
      nd_elem = (\<lambda>idx. np_true_divide E (real (unat (u8_elem img idx))) d)\<rparr>"

definition astype_float32 :: "extern \<Rightarrow> ndarray \<Rightarrow> ndarray" where
  "astype_float32 E a = a\<lparr>dtype := Float32, nd_elem := (\<lambda>idx. np_float32 E (nd_elem a idx))\<rparr>"

text \<open>The body of \<^verbatim>\<open>if occ_*_filename is not None\<close> in \<^verbatim>\<open>_load_occ\<close>.\<close>

definition read_occ :: "extern \<Rightarrow> LoadAnnotations \<Rightarrow> pyval \<Rightarrow> error + pyval" where
  "read_occ E self filename =
     (case client_get self filename of
        Inl e \<Rightarrow> Inl e
      | Inr occ_bytes \<Rightarrow>
          (case imfrombytes E occ_bytes Grayscale of
             Inl e \<Rightarrow> Inl e
           | Inr None \<Rightarrow> Inl TypeError
           | Inr (Some img) \<Rightarrow> Inr (PArray (astype_float32 E (divide_u8 E img 255)))))"

definition load_occ :: "extern \<Rightarrow> LoadAnnotations \<Rightarrow> results \<Rightarrow> error + results" where
  "load_occ E self results =
     (let occ_fw_filename = dict_get results ''occ_fw_path'';
          occ_bw_filename = dict_get results ''occ_bw_path''
      in case (if occ_fw_filename \<noteq> PNone then read_occ E self occ_fw_filename
               else Inr PNone) of
           Inl e \<Rightarrow> Inl e
         | Inr occ_fw \<Rightarrow>
             (case (if occ_bw_filename \<noteq> PNone then read_occ E self occ_bw_filename
                    else Inr PNone) of
                Inl e \<Rightarrow> Inl e
              | Inr occ_bw \<Rightarrow>
                  Inr (results(''gt_occ_fw'' \<mapsto> occ_fw, ''gt_occ_bw'' \<mapsto> occ_bw))))"

text \<open>
  \<^verbatim>\<open>transform\<close>. The file client is built on the first call and kept in the object, so
  the transform returns the object as well as the dictionary. Building the client is
  taken to succeed: \<open>file_client_args\<close> names a backend that \<^verbatim>\<open>mmcv\<close> supports, as the
  default \<^verbatim>\<open>dict(backend='disk')\<close> does.
\<close>

definition ensure_client :: "extern \<Rightarrow> LoadAnnotations \<Rightarrow> LoadAnnotations" where
  "ensure_client E self =
     (if file_client self = None
      then self\<lparr>file_client := Some (FileClient E (file_client_args self))\<rparr>
      else self)"

definition transform ::
  "extern \<Rightarrow> LoadAnnotations \<Rightarrow> results \<Rightarrow> LoadAnnotations \<times> (error + results)" where
  "transform E self results =
     (let self = ensure_client E self
      in (self,
          case (if sparse self then load_sparse_flow E self results
                else load_flow E self results) of
            Inl e \<Rightarrow> Inl e
          | Inr results \<Rightarrow>
              if with_occ self then load_occ E self results else Inr results))"

section \<open>The sequence loss\<close>

text \<open>
  Modelled from the spec: \<^verbatim>\<open>sequence_loss\<close>. \<^verbatim>\<open>losses/__init__.py\<close> imports it from
  \<^verbatim>\<open>sequence_loss.py\<close>, which is not among the source files. The spec gives the policy:
  a weighted sum over an ordered sequence of \<open>N\<close> predictions, the iteration \<open>i\<close>
  contributing \<open>weight_i * loss_i\<close> with \<open>weight_i = gamma ^ (N - 1 - i)\<close>, where
  \<open>loss_i\<close> is the loss of prediction \<open>i\<close> against the one ground truth.
\<close>

definition sequence_weight :: "real \<Rightarrow> nat \<Rightarrow> nat \<Rightarrow> real" where
  "sequence_weight gamma N i = gamma ^ (N - 1 - i)"

definition sequence_loss :: "('p \<Rightarrow> 'g \<Rightarrow> real) \<Rightarrow> real \<Rightarrow> 'p list \<Rightarrow> 'g \<Rightarrow> real" where
  "sequence_loss loss gamma preds gt =
     (\<Sum>i\<leftarrow>[0..<length preds]. sequence_weight gamma (length preds) i * loss (preds ! i) gt)"

section \<open>Inputs for the examples\<close>

text \<open>
  A tensor library to run the definitions on: real division and multiplication, and an
  interpolation that gives every output position the first element of its channel. The
  lemmas on the loop body hold for every library; the evaluations run on this one.
\<close>

definition example_torch :: torch where
  "example_torch =
     \<lparr>interpolate = (\<lambda>t size mode align_corners.
        Inr \<lparr>shape = take 2 (shape t) @ [fst size, snd size],
             elem = (\<lambda>idx. elem t (take 2 idx @ [0, 0]))\<rparr>),
      true_divide = (\<lambda>x y. x / y),
      mul = (\<lambda>x y. x * y)\<rparr>"

text \<open>A batch of shape \<open>(N, 2, H, W)\<close> whose element at an index is one more than the sum of the index.\<close>

definition example_batch :: "nat \<Rightarrow> nat \<Rightarrow> nat \<Rightarrow> tensor" where
  "example_batch N H W = \<lparr>shape = [N, 2, H, W], elem = (\<lambda>idx. real (Suc (sum_list idx)))\<rparr>"

definition example_sample ::
  "(nat \<times> nat) \<Rightarrow> ((int \<times> int) \<times> (int \<times> int)) option \<Rightarrow> (real \<times> real) option
     \<Rightarrow> FlowDataSample" where
  "example_sample ori p sf =
     \<lparr>metainfo = \<lparr>ori_shape = Some [fst ori, snd ori], pad = p, scale_factor = sf,
                  img_shape = None\<rparr>,
      data_fields = Map.empty\<rparr>"

text \<open>
  Collaborators of the loader: a file system with two files, decoders that give fixed
  arrays, exact division and a cast that keeps the value.
\<close>

definition example_flow :: ndarray where
  "example_flow = \<lparr>dtype = Float32, nd_shape = [1, 2, 2], nd_elem = (\<lambda>idx. 3)\<rparr>"

definition example_valid :: ndarray where
  "example_valid = \<lparr>dtype = Float32, nd_shape = [1, 2], nd_elem = (\<lambda>idx. 1)\<rparr>"

definition example_image :: uint8_array where
  "example_image = \<lparr>u8_shape = [1, 2], u8_elem = (\<lambda>idx. if idx = [0, 0] then 255 else 51)\<rparr>"

definition example_extern :: extern where
  "example_extern =
     \<lparr>FileClient = (\<lambda>args path.
        if path = ''flow.png'' then Inr [1, 2]
        else if path = ''occ.png'' then Inr [3]
        else Inl (ExternalError ''FileNotFoundError'')),
      flow_from_bytes = (\<lambda>b suffix. Inr example_flow),
      sparse_flow_from_bytes = (\<lambda>b. Inr (example_flow, example_valid)),
      imfrombytes = (\<lambda>b flag. Inr (Some example_image)),
      np_true_divide = (\<lambda>x y. x / y),
      np_float32 = (\<lambda>x. x)\<rparr>"


section \<open>The post-processing: lemmas\<close>

lemma list_of_tensor_Suc:
  "shape fr = Suc n # sh \<Longrightarrow> list_of_tensor fr = Inr (select0 fr 0 # map (select0 fr) [1..<Suc n])"
  by (simp add: list_of_tensor_def upt_conv_Cons del: upt_Suc)

lemma new_PixelData_3d: "shape f = [C, H, W] \<Longrightarrow> new_PixelData f = Inr (PixelData f)"
  by (simp add: new_PixelData_def)

lemma postprocess_result_first:
  assumes "shape fr = Suc n # sh" and "length ss = n"
  shows "postprocess_result T fr (Some (s # ss)) =
           (case revert_flow T (metainfo s) (select0 fr 0) of
              Inl e \<Rightarrow> Inl e
            | Inr f \<Rightarrow>
                (case new_PixelData f of
                   Inl e \<Rightarrow> Inl e
                 | Inr pixels \<Rightarrow> Inr (Some (set_data ''pred_flow_fw'' pixels s # ss))))"
  using assms
  by (simp add: postprocess_result_def list_of_tensor_Suc upt_conv_Cons del: upt_Suc
           split: sum.splits)

lemma postprocess_result_only_prediction:
  assumes "shape fr = [Suc n, C, H, W]"
  shows "postprocess_result T fr None =
           Inr (Some [set_data ''pred_flow_fw'' (PixelData (select0 fr 0)) new_FlowDataSample])"
proof -
  have "shape (select0 fr 0) = [C, H, W]"
    using assms by (simp add: select0_def)
  then have "new_PixelData (select0 fr 0) = Inr (PixelData (select0 fr 0))"
    by (rule new_PixelData_3d)
  then show ?thesis
    using assms
    by (simp add: postprocess_result_def list_of_tensor_Suc upt_conv_Cons del: upt_Suc)
qed

lemma slice_index_nonneg: "0 \<le> i \<Longrightarrow> i \<le> int n \<Longrightarrow> slice_index i n = nat i"
  by (simp add: slice_index_def)

lemma slice_hw_margins:
  assumes "shape f = [C, H, W]"
    and "0 \<le> a" "0 \<le> b" "a + b \<le> int H"
    and "0 \<le> c" "0 \<le> d" "c + d \<le> int W"
  shows "slice_hw f a (int H - b) c (int W - d) =
           Inr \<lparr>shape = [C, nat (int H - a - b), nat (int W - c - d)],
                elem = (\<lambda>idx. elem f (map2 (+) [0, nat a, nat c] idx))\<rparr>"
proof -
  have "slice_index a H = nat a" "slice_index (int H - b) H = nat (int H - b)"
       "slice_index c W = nat c" "slice_index (int W - d) W = nat (int W - d)"
    using assms by (simp_all add: slice_index_nonneg)
  moreover have "nat (int H - b) - nat a = nat (int H - a - b)"
    "nat (int W - d) - nat c = nat (int W - c - d)"
    using assms by linarith+
  ultimately show ?thesis using assms(1) by (simp add: slice_hw_def)
qed

text \<open>
  The loop body on one sample. With \<open>pad\<close> in the meta information the flow is cropped
  by the margins, whatever the scale factor and the tensor library are.
\<close>

lemma revert_flow_pad:
  assumes "ori_shape m = Some [ori_H, ori_W]" and "pad m = Some ((a, b), (c, d))"
    and "shape f = [C, H, W]"
  shows "revert_flow T m f = slice_hw f a (int H - b) c (int W - d)"
  using assms by (simp add: revert_flow_def split: prod.splits option.splits)

lemma revert_flow_pad_margins:
  assumes "ori_shape m = Some [ori_H, ori_W]" and "pad m = Some ((a, b), (c, d))"
    and "shape f = [C, H, W]"
    and "0 \<le> a" "0 \<le> b" "a + b \<le> int H"
    and "0 \<le> c" "0 \<le> d" "c + d \<le> int W"
  shows "revert_flow T m f =
           Inr \<lparr>shape = [C, nat (int H - a - b), nat (int W - c - d)],
                elem = (\<lambda>idx. elem f (map2 (+) [0, nat a, nat c] idx))\<rparr>"
  using revert_flow_pad [OF assms(1,2,3), of T] slice_hw_margins [OF assms(3-9)] by simp

text \<open>
  Without \<open>pad\<close> and with a scale factor the flow is interpolated to the original
  size and its two channels are divided by the two scales.
\<close>

lemma revert_flow_scale:
  assumes "ori_shape m = Some [ori_H, ori_W]" and "pad m = None"
    and "scale_factor m = Some (w_scale, h_scale)" and "shape f = [C, H, W]"
    and "interpolate T (unsqueeze0 f) (ori_H, ori_W) Bilinear False = Inr up"
    and "shape up = [1, 2, ori_H, ori_W]"
  shows "revert_flow T m f =
           Inr \<lparr>shape = [2, ori_H, ori_W],
                elem = (\<lambda>idx. case idx of
                          [] \<Rightarrow> elem up (0 # idx)
                        | k # _ \<Rightarrow>
                            if k = 0 then true_divide T (elem up (0 # idx)) w_scale
                            else if k = 1 then true_divide T (elem up (0 # idx)) h_scale
                            else elem up (0 # idx))\<rparr>"
  using assms
  by (auto simp add: revert_flow_def squeeze0_def select0_def div_channel_def fun_eq_iff
       split: list.splits)

lemma revert_flow_plain:
  assumes "ori_shape m = Some [ori_H, ori_W]" and "pad m = None" and "scale_factor m = None"
    and "shape f = [C, H, W]"
  shows "revert_flow T m f = Inr f"
  using assms by (simp add: revert_flow_def)

lemma example_batch_sample:
  "shape (select0 (example_batch N H W) b) = [2, H, W]"
  by (simp add: select0_def example_batch_def)

lemma example_interpolate:
  "interpolate example_torch (unsqueeze0 (select0 (example_batch N H W) b)) (oh, ow) mode ac =
     Inr \<lparr>shape = [1, 2, oh, ow],
          elem = (\<lambda>idx. elem (unsqueeze0 (select0 (example_batch N H W) b))
                          (take 2 idx @ [0, 0]))\<rparr>"
  by (simp add: example_torch_def unsqueeze0_def select0_def example_batch_def)

text \<open>
  Claim C4 says that every per-sample flow whose meta information holds
  \<open>pad = ((a, b), (c, d))\<close> is cropped by \<^verbatim>\<open>postprocess_result\<close> to
  \<open>(2, H - a - b, W - c - d)\<close>. The loop body does crop (\<open>revert_flow_pad_margins\<close>), but
  the loop returns after its first iteration: on a batch of two flows of shape
  \<open>(2, 10, 12)\<close>, both with \<open>pad = ((2, 2), (3, 3))\<close>, the call returns both records,
  the first with the flow cropped to \<open>(2, 6, 6)\<close> and the second with no flow at all,
  although the loop body gives the crop of shape \<open>(2, 6, 6)\<close> on the second flow too.
\<close>

theorem padded_later_sample_not_cropped:
  "\<exists>r0 r1 g0 g1.
     postprocess_result example_torch (example_batch 2 10 12)
       (Some [example_sample (6, 6) (Some ((2, 2), (3, 3))) None,
              example_sample (6, 6) (Some ((2, 2), (3, 3))) None])
     = Inr (Some [r0, r1])
     \<and> data_fields r0 ''pred_flow_fw'' = Some (PixelData g0) \<and> shape g0 = [2, 6, 6]
     \<and> data_fields r1 ''pred_flow_fw'' = None
     \<and> revert_flow example_torch
          (metainfo (example_sample (6, 6) (Some ((2, 2), (3, 3))) None))
          (select0 (example_batch 2 10 12) 1) = Inr g1
     \<and> shape g1 = [2, 6, 6]"
proof -
  let ?b = "example_batch 2 10 12"
  let ?s = "example_sample (6, 6) (Some ((2, 2), (3, 3))) None"
  let ?g = "\<lambda>k. \<lparr>shape = [2, 6, 6],
                  elem = (\<lambda>idx. elem (select0 ?b k) (map2 (+) [0, 2, 3] idx))\<rparr>"
  have meta: "ori_shape (metainfo ?s) = Some [6, 6]"
    "pad (metainfo ?s) = Some ((2, 2), (3, 3))"
    by (simp_all add: example_sample_def)
  have body: "revert_flow example_torch (metainfo ?s) (select0 ?b k) = Inr (?g k)" for k
    using revert_flow_pad_margins [where T = example_torch and f = "select0 ?b k"
        and C = 2 and H = 10 and W = 12, OF meta example_batch_sample]
    by simp
  have "shape ?b = Suc 1 # [2, 10, 12]"
    by (simp add: example_batch_def)
  then have "postprocess_result example_torch ?b (Some [?s, ?s]) =
      Inr (Some [set_data ''pred_flow_fw'' (PixelData (?g 0)) ?s, ?s])"
    by (simp add: postprocess_result_first [where n = 1] body new_PixelData_def)
  moreover have "data_fields (set_data ''pred_flow_fw'' (PixelData (?g 0)) ?s) ''pred_flow_fw''
      = Some (PixelData (?g 0))"
    by (simp add: set_data_def)
  moreover have "data_fields ?s ''pred_flow_fw'' = None"
    by (simp add: example_sample_def)
  moreover have "shape (?g 0) = [2, 6, 6]" and "shape (?g 1) = [2, 6, 6]"
    by simp_all
  ultimately show ?thesis
    using body [of 1] by blast
qed

text \<open>
  Claim C5 says that every per-sample flow whose meta information has no \<open>pad\<close> but a
  scale factor and \<open>ori_shape = (oriH, oriW)\<close> is upsampled to \<open>(2, oriH, oriW)\<close> and
  has its channels divided by the scales. The loop body does so (\<open>revert_flow_scale\<close>),
  but the loop returns after its first iteration: on a batch of two flows of shape
  \<open>(2, 50, 50)\<close>, both with \<open>scale_factor = (0.5, 0.5)\<close> and
  \<open>ori_shape = (100, 100)\<close>, the call returns both records, the first with a flow of
  shape \<open>(2, 100, 100)\<close> and the second with no flow at all, although the loop body
  gives a flow of shape \<open>(2, 100, 100)\<close> on the second flow too.
\<close>

theorem scaled_later_sample_not_upsampled:
  "\<exists>r0 r1 g0 g1.
     postprocess_result example_torch (example_batch 2 50 50)
       (Some [example_sample (100, 100) None (Some (1 / 2, 1 / 2)),
              example_sample (100, 100) None (Some (1 / 2, 1 / 2))])
     = Inr (Some [r0, r1])
     \<and> data_fields r0 ''pred_flow_fw'' = Some (PixelData g0) \<and> shape g0 = [2, 100, 100]
     \<and> data_fields r1 ''pred_flow_fw'' = None
     \<and> revert_flow example_torch
          (metainfo (example_sample (100, 100) None (Some (1 / 2, 1 / 2))))
          (select0 (example_batch 2 50 50) 1) = Inr g1
     \<and> shape g1 = [2, 100, 100]"
proof -
  let ?b = "example_batch 2 50 50"
  let ?s = "example_sample (100, 100) None (Some (1 / 2, 1 / 2))"
  let ?up = "\<lambda>k. \<lparr>shape = [1, 2, 100, 100],
                   elem = (\<lambda>idx. elem (unsqueeze0 (select0 ?b k)) (take 2 idx @ [0, 0]))\<rparr>"
  let ?g = "\<lambda>k. \<lparr>shape = [2, 100, 100],
                  elem = (\<lambda>idx. case idx of
                            [] \<Rightarrow> elem (?up k) (0 # idx)
                          | c # _ \<Rightarrow>
                              if c = 0 then true_divide example_torch (elem (?up k) (0 # idx)) (1 / 2)
                              else if c = 1
                              then true_divide example_torch (elem (?up k) (0 # idx)) (1 / 2)
                              else elem (?up k) (0 # idx))\<rparr>"
  have meta: "ori_shape (metainfo ?s) = Some [100, 100]" "pad (metainfo ?s) = None"
    "scale_factor (metainfo ?s) = Some (1 / 2, 1 / 2)"
    by (simp_all add: example_sample_def)
  have up: "shape (?up k) = [1, 2, 100, 100]" for k
    by simp
  have body: "revert_flow example_torch (metainfo ?s) (select0 ?b k) = Inr (?g k)" for k
    by (rule revert_flow_scale [OF meta example_batch_sample example_interpolate up])
  have "shape ?b = Suc 1 # [2, 50, 50]"
    by (simp add: example_batch_def)
  then have "postprocess_result example_torch ?b (Some [?s, ?s]) =
      Inr (Some [set_data ''pred_flow_fw'' (PixelData (?g 0)) ?s, ?s])"
    by (simp add: postprocess_result_first [where n = 1] body new_PixelData_def)
  moreover have "data_fields (set_data ''pred_flow_fw'' (PixelData (?g 0)) ?s) ''pred_flow_fw''
      = Some (PixelData (?g 0))"
    by (simp add: set_data_def)
  moreover have "data_fields ?s ''pred_flow_fw'' = None"
    by (simp add: example_sample_def)
  moreover have "shape (?g 0) = [2, 100, 100]" and "shape (?g 1) = [2, 100, 100]"
    by simp_all
  ultimately show ?thesis
    using body [of 1] by blast
qed

text \<open>
  Claim C6 says that for every meta record holding both \<open>pad\<close> and \<open>scale_factor\<close>
  \<^verbatim>\<open>postprocess_result\<close> applies the crop and not the upsampling. In the loop body the
  crop does take precedence (\<open>revert_flow_pad\<close>: the result is the crop for every
  tensor library and every scale factor), but the loop returns after its first
  iteration: on a batch of two flows of shape \<open>(2, 10, 12)\<close> whose second record holds
  \<open>pad = ((2, 2), (3, 3))\<close> and \<open>scale_factor = (0.5, 0.5)\<close>, the call returns both
  records and the second has no flow, so neither branch was applied to it, although
  the loop body gives the crop of shape \<open>(2, 6, 6)\<close> on it, with the example library
  and with one whose division gives 0.
\<close>

theorem later_sample_with_both_keys_untouched:
  "\<exists>r0 r1 g1.
     postprocess_result example_torch (example_batch 2 10 12)
       (Some [example_sample (10, 12) None None,
              example_sample (6, 6) (Some ((2, 2), (3, 3))) (Some (1 / 2, 1 / 2))])
     = Inr (Some [r0, r1])
     \<and> data_fields r0 ''pred_flow_fw'' = Some (PixelData (select0 (example_batch 2 10 12) 0))
     \<and> data_fields r1 ''pred_flow_fw'' = None
     \<and> revert_flow example_torch
          (metainfo (example_sample (6, 6) (Some ((2, 2), (3, 3))) (Some (1 / 2, 1 / 2))))
          (select0 (example_batch 2 10 12) 1) = Inr g1
     \<and> revert_flow (example_torch\<lparr>true_divide := (\<lambda>x y. 0)\<rparr>)
          (metainfo (example_sample (6, 6) (Some ((2, 2), (3, 3))) (Some (1 / 2, 1 / 2))))
          (select0 (example_batch 2 10 12) 1) = Inr g1
     \<and> shape g1 = [2, 6, 6]"
proof -
  let ?b = "example_batch 2 10 12"
  let ?s0 = "example_sample (10, 12) None None"
  let ?s1 = "example_sample (6, 6) (Some ((2, 2), (3, 3))) (Some (1 / 2, 1 / 2))"
  let ?g = "\<lparr>shape = [2, 6, 6],
             elem = (\<lambda>idx. elem (select0 ?b 1) (map2 (+) [0, 2, 3] idx))\<rparr>"
  have meta0: "ori_shape (metainfo ?s0) = Some [10, 12]" "pad (metainfo ?s0) = None"
    "scale_factor (metainfo ?s0) = None"
    by (simp_all add: example_sample_def)
  have meta1: "ori_shape (metainfo ?s1) = Some [6, 6]"
    "pad (metainfo ?s1) = Some ((2, 2), (3, 3))"
    by (simp_all add: example_sample_def)
  have body0: "revert_flow example_torch (metainfo ?s0) (select0 ?b 0) = Inr (select0 ?b 0)"
    by (rule revert_flow_plain [OF meta0 example_batch_sample])
  have body1: "revert_flow U (metainfo ?s1) (select0 ?b 1) = Inr ?g" for U
    using revert_flow_pad_margins [where T = U and f = "select0 ?b 1"
        and C = 2 and H = 10 and W = 12, OF meta1 example_batch_sample]
    by simp
  have "shape ?b = Suc 1 # [2, 10, 12]"
    by (simp add: example_batch_def)
  then have "postprocess_result example_torch ?b (Some [?s0, ?s1]) =
      Inr (Some [set_data ''pred_flow_fw'' (PixelData (select0 ?b 0)) ?s0, ?s1])"
    by (simp add: postprocess_result_first [where n = 1] body0
          new_PixelData_3d [OF example_batch_sample])
  moreover have "data_fields (set_data ''pred_flow_fw'' (PixelData (select0 ?b 0)) ?s0)
      ''pred_flow_fw'' = Some (PixelData (select0 ?b 0))"
    by (simp add: set_data_def)
  moreover have "data_fields ?s1 ''pred_flow_fw'' = None"
    by (simp add: example_sample_def)
  moreover have "shape ?g = [2, 6, 6]"
    by simp
  ultimately show ?thesis
    using body1 [of example_torch] body1 [of "example_torch\<lparr>true_divide := (\<lambda>x y. 0)\<rparr>"]
    by blast
qed

text \<open>
  Claim C10. For a batch with no sample and no \<^verbatim>\<open>data_samples\<close>, the loop body never
  runs and \<^verbatim>\<open>postprocess_result\<close> ends without a \<^verbatim>\<open>return\<close>: its value is \<^verbatim>\<open>None\<close>,
  not an empty list.
\<close>

theorem empty_batch_returns_None:
  assumes "shape flow_results = 0 # sh"
  shows "postprocess_result T flow_results None = Inr None
           \<and> postprocess_result T flow_results None \<noteq> Inr (Some [])"
  using assms by (simp add: postprocess_result_def list_of_tensor_def)

theorem empty_batch_returns_None_witness:
  "shape (example_batch 0 4 4) = [0, 2, 4, 4]
   \<and> postprocess_result example_torch (example_batch 0 4 4) None = Inr None"
  using empty_batch_returns_None [of "example_batch 0 4 4" "[2, 4, 4]" example_torch]
  by (simp add: example_batch_def)

text \<open>
  Claim C1 says that every one of the \<open>N\<close> samples gets a flow under
  \<^verbatim>\<open>'pred_flow_fw'\<close>. The code returns from inside the loop: on a batch of two samples
  with two meta records it returns both records, the first with a flow and the second
  without one.
\<close>

theorem later_samples_get_no_flow:
  "\<exists>r0 r1. postprocess_result example_torch (example_batch 2 4 4)
              (Some [example_sample (4, 4) None None, example_sample (4, 4) None None])
            = Inr (Some [r0, r1])
         \<and> data_fields r0 ''pred_flow_fw'' \<noteq> None
         \<and> data_fields r1 ''pred_flow_fw'' = None"
proof -
  let ?b = "example_batch 2 4 4"
  let ?s = "example_sample (4, 4) None None"
  have meta: "ori_shape (metainfo ?s) = Some [4, 4]" "pad (metainfo ?s) = None"
    "scale_factor (metainfo ?s) = None"
    by (simp_all add: example_sample_def)
  have body: "revert_flow example_torch (metainfo ?s) (select0 ?b 0) = Inr (select0 ?b 0)"
    by (rule revert_flow_plain [OF meta example_batch_sample])
  have "shape ?b = Suc 1 # [2, 4, 4]"
    by (simp add: example_batch_def)
  then have "postprocess_result example_torch ?b (Some [?s, ?s]) =
      Inr (Some [set_data ''pred_flow_fw'' (PixelData (select0 ?b 0)) ?s, ?s])"
    by (simp add: postprocess_result_first [where n = 1] body
          new_PixelData_3d [OF example_batch_sample])
  then show ?thesis
    by (simp add: set_data_def example_sample_def)
qed

text \<open>
  Claim C3 says that without \<^verbatim>\<open>data_samples\<close> each sample of the batch is wrapped as a
  prediction-only record. On a batch of two samples \<^verbatim>\<open>postprocess_result\<close> returns one
  record, which holds the first sample unchanged; so does \<^verbatim>\<open>predict_by_feat\<close>, after it
  has multiplied the batch by \<^verbatim>\<open>flow_div\<close>.
\<close>

theorem only_first_prediction_wrapped:
  "postprocess_result T (example_batch 2 4 4) None =
     Inr (Some [set_data ''pred_flow_fw'' (PixelData (select0 (example_batch 2 4 4) 0))
                  new_FlowDataSample])
   \<and> predict_by_feat T flow_div (example_batch 2 4 4) None =
     Inr (Some [set_data ''pred_flow_fw''
                  (PixelData (select0 (scale_tensor T (example_batch 2 4 4) flow_div) 0))
                  new_FlowDataSample])"
proof -
  have "shape (example_batch 2 4 4) = [Suc 1, 2, 4, 4]"
    and "shape (scale_tensor T (example_batch 2 4 4) flow_div) = [Suc 1, 2, 4, 4]"
    by (simp_all add: example_batch_def scale_tensor_def)
  then show ?thesis
    by (simp add: predict_by_feat_def postprocess_result_only_prediction)
qed


section \<open>The loader and the sequence loss: lemmas\<close>

lemma unat_u8_le: "unat (w :: 8 word) \<le> 255"
  using unsigned_less [of w, where 'a = nat] by simp

lemma ensure_client_flags:
  "sparse (ensure_client E self) = sparse self"
  "with_occ (ensure_client E self) = with_occ self"
  by (simp_all add: ensure_client_def)

lemma load_flow_absent:
  assumes "dict_get results ''flow_fw_path'' = PNone" and "dict_get results ''flow_bw_path'' = PNone"
  shows "load_flow E self results = Inr (results(''gt_flow_fw'' \<mapsto> PNone, ''gt_flow_bw'' \<mapsto> PNone))"
  using assms by (simp add: load_flow_def)

lemma load_occ_absent:
  assumes "dict_get results ''occ_fw_path'' = PNone" and "dict_get results ''occ_bw_path'' = PNone"
  shows "load_occ E self results = Inr (results(''gt_occ_fw'' \<mapsto> PNone, ''gt_occ_bw'' \<mapsto> PNone))"
  using assms by (simp add: load_occ_def)

lemma load_sparse_flow_absent:
  assumes "dict_get results ''flow_fw_path'' = PNone"
  shows "load_sparse_flow E self results = Inl (UnboundLocalError ''valid'')"
  using assms by (simp add: load_sparse_flow_def)

lemma load_sparse_flow_present:
  assumes "results ''flow_fw_path'' = Some (PStr path)"
    and "client_get self (PStr path) = Inr flow_fw_bytes"
    and "sparse_flow_from_bytes E flow_fw_bytes = Inr (flow_fw, valid)"
  shows "load_sparse_flow E self results =
           Inr (results(''gt_flow_fw'' \<mapsto> PArray flow_fw, ''gt_flow_bw'' \<mapsto> PNone,
                        ''gt_valid'' \<mapsto> PArray valid))"
  using assms by (simp add: load_sparse_flow_def dict_get_def)



lemma load_occ_Inr:
  assumes "load_occ E self r = Inr r'"
  shows "\<exists>occ_fw occ_bw. r' = r(''gt_occ_fw'' \<mapsto> occ_fw, ''gt_occ_bw'' \<mapsto> occ_bw)"
proof -
  let ?fw = "if dict_get r ''occ_fw_path'' \<noteq> PNone
             then read_occ E self (dict_get r ''occ_fw_path'') else Inr PNone"
  let ?bw = "if dict_get r ''occ_bw_path'' \<noteq> PNone
             then read_occ E self (dict_get r ''occ_bw_path'') else Inr PNone"
  have eq: "load_occ E self r =
      (case ?fw of Inl e \<Rightarrow> Inl e
       | Inr occ_fw \<Rightarrow>
           (case ?bw of Inl e \<Rightarrow> Inl e
            | Inr occ_bw \<Rightarrow> Inr (r(''gt_occ_fw'' \<mapsto> occ_fw, ''gt_occ_bw'' \<mapsto> occ_bw))))"
    by (simp only: load_occ_def Let_def)
  obtain occ_fw where fw: "?fw = Inr occ_fw"
    using assms unfolding eq by (cases ?fw) simp_all
  obtain occ_bw where bw: "?bw = Inr occ_bw"
    using assms unfolding eq fw by (cases ?bw) simp_all
  have "r' = r(''gt_occ_fw'' \<mapsto> occ_fw, ''gt_occ_bw'' \<mapsto> occ_bw)"
    using assms unfolding eq fw bw by simp
  then show ?thesis by blast
qed

lemma load_occ_other_keys:
  assumes "load_occ E self r = Inr r'" and "k \<noteq> ''gt_occ_fw''" and "k \<noteq> ''gt_occ_bw''"
  shows "r' k = r k"
proof -
  obtain occ_fw occ_bw where "r' = r(''gt_occ_fw'' \<mapsto> occ_fw, ''gt_occ_bw'' \<mapsto> occ_bw)"
    using load_occ_Inr [OF assms(1)] by blast
  then show ?thesis
    using assms(2,3) by (simp only: fun_upd_apply if_False)
qed


text \<open>
  Claim C2 says that an absent path key gives \<^verbatim>\<open>None\<close> under the output key and is no
  error, in dense and in sparse mode. The dense loader does so (\<open>load_flow_absent\<close>),
  and so does the occlusion loader (\<open>load_occ_absent\<close>). The sparse loader sets
  \<^verbatim>\<open>flow_fw = None\<close> for an absent \<^verbatim>\<open>flow_fw_path\<close> but leaves \<^verbatim>\<open>valid\<close> unbound, and
  then reads it: on a record without \<^verbatim>\<open>flow_fw_path\<close> the transform in sparse mode
  raises.
\<close>

theorem sparse_absent_forward_path_raises:
  "snd (transform E (init_LoadAnnotations occ (Some True) args) Map.empty) =
     Inl (UnboundLocalError ''valid'')"
proof -
  let ?self = "ensure_client E (init_LoadAnnotations occ (Some True) args)"
  have "sparse ?self"
    by (simp add: ensure_client_flags init_LoadAnnotations_def)
  moreover have "load_sparse_flow E ?self Map.empty = Inl (UnboundLocalError ''valid'')"
    by (rule load_sparse_flow_absent) (simp add: dict_get_def)
  ultimately show ?thesis
    by (simp add: transform_def Let_def)
qed


text \<open>
  Claim C7. In sparse mode, for a record whose \<^verbatim>\<open>flow_fw_path\<close> is present, readable
  and decodable, the sparse loader sets \<^verbatim>\<open>gt_flow_fw\<close> to the decoded flow,
  \<^verbatim>\<open>gt_valid\<close> to the decoded validity mask and \<^verbatim>\<open>gt_flow_bw\<close> to \<^verbatim>\<open>None\<close>, whatever
  else the record holds (a \<^verbatim>\<open>flow_bw_path\<close> included). Without the occlusion flag this
  is what the transform returns; with it, whenever the transform returns, the three keys
  hold these values.
\<close>

theorem sparse_loads_forward_flow_only:
  assumes "sparse self"
    and "results ''flow_fw_path'' = Some (PStr path)"
    and "client_get (ensure_client E self) (PStr path) = Inr flow_fw_bytes"
    and "sparse_flow_from_bytes E flow_fw_bytes = Inr (flow_fw, valid)"
  shows "load_sparse_flow E (ensure_client E self) results =
           Inr (results(''gt_flow_fw'' \<mapsto> PArray flow_fw, ''gt_flow_bw'' \<mapsto> PNone,
                        ''gt_valid'' \<mapsto> PArray valid))
       \<and> (\<not> with_occ self \<longrightarrow>
            snd (transform E self results) =
              Inr (results(''gt_flow_fw'' \<mapsto> PArray flow_fw, ''gt_flow_bw'' \<mapsto> PNone,
                           ''gt_valid'' \<mapsto> PArray valid)))
       \<and> (\<forall>r. snd (transform E self results) = Inr r \<longrightarrow>
            r ''gt_flow_fw'' = Some (PArray flow_fw) \<and> r ''gt_flow_bw'' = Some PNone
            \<and> r ''gt_valid'' = Some (PArray valid))"
proof -
  let ?r = "results(''gt_flow_fw'' \<mapsto> PArray flow_fw, ''gt_flow_bw'' \<mapsto> PNone,
                    ''gt_valid'' \<mapsto> PArray valid)"
  have flow: "load_sparse_flow E (ensure_client E self) results = Inr ?r"
    using assms(2,3,4) by (rule load_sparse_flow_present)
  have tr: "snd (transform E self results) =
      (if with_occ self then load_occ E (ensure_client E self) ?r else Inr ?r)"
    using assms(1) flow by (simp add: transform_def ensure_client_flags Let_def)
  have vals: "?r ''gt_flow_fw'' = Some (PArray flow_fw) \<and> ?r ''gt_flow_bw'' = Some PNone
      \<and> ?r ''gt_valid'' = Some (PArray valid)"
    by simp
  have keys: "r ''gt_flow_fw'' = Some (PArray flow_fw) \<and> r ''gt_flow_bw'' = Some PNone
      \<and> r ''gt_valid'' = Some (PArray valid)"
    if ret: "snd (transform E self results) = Inr r" for r
  proof (cases "with_occ self")
    case True
    with ret tr have occ: "load_occ E (ensure_client E self) ?r = Inr r"
      by simp
    have "r ''gt_flow_fw'' = ?r ''gt_flow_fw''"
      by (rule load_occ_other_keys [OF occ]) simp_all
    moreover have "r ''gt_flow_bw'' = ?r ''gt_flow_bw''"
      by (rule load_occ_other_keys [OF occ]) simp_all
    moreover have "r ''gt_valid'' = ?r ''gt_valid''"
      by (rule load_occ_other_keys [OF occ]) simp_all
    ultimately show ?thesis
      using vals by (simp only:)
  next
    case False
    with ret tr have "r = ?r"
      by simp
    then show ?thesis
      using vals by (simp only:)
  qed
  have plain: "\<not> with_occ self \<longrightarrow> snd (transform E self results) = Inr ?r"
    using tr by simp
  show ?thesis
    using flow plain keys by blast
qed


lemma normalised_mask:
  assumes "\<forall>x. 0 \<le> x \<and> x \<le> 255 \<longrightarrow> 0 \<le> np_true_divide E x 255 \<and> np_true_divide E x 255 \<le> 1"
    and "\<forall>y. 0 \<le> y \<and> y \<le> 1 \<longrightarrow> 0 \<le> np_float32 E y \<and> np_float32 E y \<le> 1"
  shows "dtype (astype_float32 E (divide_u8 E img 255)) = Float32"
    and "nd_shape (astype_float32 E (divide_u8 E img 255)) = u8_shape img"
    and "nd_elem (astype_float32 E (divide_u8 E img 255)) idx =
           np_float32 E (np_true_divide E (real (unat (u8_elem img idx))) 255)"
    and "0 \<le> nd_elem (astype_float32 E (divide_u8 E img 255)) idx"
    and "nd_elem (astype_float32 E (divide_u8 E img 255)) idx \<le> 1"
proof -
  let ?x = "real (unat (u8_elem img idx))"
  have "real (unat (u8_elem img idx)) \<le> real 255"
    using unat_u8_le [of "u8_elem img idx"] by (rule of_nat_mono)
  then have "?x \<le> 255"
    by (simp only: of_nat_numeral)
  moreover have "0 \<le> ?x"
    by (rule of_nat_0_le_iff)
  ultimately have "0 \<le> ?x" and "?x \<le> 255"
    by blast+
  then have d: "0 \<le> np_true_divide E ?x 255 \<and> np_true_divide E ?x 255 \<le> 1"
    using assms(1) by blast
  then have c: "0 \<le> np_float32 E (np_true_divide E ?x 255)
      \<and> np_float32 E (np_true_divide E ?x 255) \<le> 1"
    using assms(2) by blast
  show "dtype (astype_float32 E (divide_u8 E img 255)) = Float32"
    and "nd_shape (astype_float32 E (divide_u8 E img 255)) = u8_shape img"
    and e: "nd_elem (astype_float32 E (divide_u8 E img 255)) idx =
           np_float32 E (np_true_divide E ?x 255)"
    by (simp_all add: astype_float32_def divide_u8_def)
  show "0 \<le> nd_elem (astype_float32 E (divide_u8 E img 255)) idx"
    and "nd_elem (astype_float32 E (divide_u8 E img 255)) idx \<le> 1"
    using c unfolding e by simp_all
qed

lemma read_occ_present:
  assumes "client_get self (PStr path) = Inr b" and "imfrombytes E b Grayscale = Inr (Some img)"
  shows "read_occ E self (PStr path) = Inr (PArray (astype_float32 E (divide_u8 E img 255)))"
  using assms by (simp add: read_occ_def)

lemma occ_branch:
  assumes "case src of
             None \<Rightarrow> filename = PNone
           | Some (path, b, img) \<Rightarrow>
               filename = PStr path \<and> client_get self (PStr path) = Inr b
               \<and> imfrombytes E b Grayscale = Inr (Some img)"
  shows "(if filename \<noteq> PNone then read_occ E self filename else Inr PNone) =
           Inr (case src of
                  None \<Rightarrow> PNone
                | Some (path, b, img) \<Rightarrow> PArray (astype_float32 E (divide_u8 E img 255)))"
proof (cases src)
  case None
  with assms show ?thesis by simp
next
  case (Some t)
  obtain path b img where t: "t = (path, b, img)"
    by (cases t) auto
  from assms Some t have f: "filename = PStr path"
    and "client_get self (PStr path) = Inr b"
    and "imfrombytes E b Grayscale = Inr (Some img)"
    by simp_all
  then have "read_occ E self (PStr path) = Inr (PArray (astype_float32 E (divide_u8 E img 255)))"
    by (simp add: read_occ_present)
  then show ?thesis
    using Some t f by simp
qed

text \<open>
  Claim C8. With the occlusion flag, the transform runs the occlusion loader on the
  result \<open>r1\<close> of the flow loader, sparse or dense. For each of the two occlusion
  paths (\<open>fw\<close>, \<open>bw\<close>: \<open>None\<close> for an absent path, else the path, its bytes and the
  \<^verbatim>\<open>uint8\<close> image that \<^verbatim>\<open>imfrombytes\<close> decodes from them with the grayscale flag) the
  output key holds \<^verbatim>\<open>None\<close> or the image divided by 255 and cast to \<^verbatim>\<open>float32\<close>. That
  array has the \<^verbatim>\<open>dtype\<close> \<^verbatim>\<open>float32\<close>, the shape of the image, and elements between 0 and 1,
  given that the float division and the cast keep results inside \<open>[0, 1]\<close> (rounding is
  monotone and 0 and 1 are floats).
\<close>

theorem occlusion_masks_normalised:
  assumes "with_occ self"
    and "(if sparse self then load_sparse_flow E (ensure_client E self) results
          else load_flow E (ensure_client E self) results) = Inr r1"
    and "case fw of
           None \<Rightarrow> dict_get r1 ''occ_fw_path'' = PNone
         | Some (path, b, img) \<Rightarrow>
             dict_get r1 ''occ_fw_path'' = PStr path
             \<and> client_get (ensure_client E self) (PStr path) = Inr b
             \<and> imfrombytes E b Grayscale = Inr (Some img)"
    and "case bw of
           None \<Rightarrow> dict_get r1 ''occ_bw_path'' = PNone
         | Some (path, b, img) \<Rightarrow>
             dict_get r1 ''occ_bw_path'' = PStr path
             \<and> client_get (ensure_client E self) (PStr path) = Inr b
             \<and> imfrombytes E b Grayscale = Inr (Some img)"
    and "\<forall>x. 0 \<le> x \<and> x \<le> 255 \<longrightarrow> 0 \<le> np_true_divide E x 255 \<and> np_true_divide E x 255 \<le> 1"
    and "\<forall>y. 0 \<le> y \<and> y \<le> 1 \<longrightarrow> 0 \<le> np_float32 E y \<and> np_float32 E y \<le> 1"
  shows "snd (transform E self results) =
           Inr (r1(''gt_occ_fw'' \<mapsto>
                     (case fw of
                        None \<Rightarrow> PNone
                      | Some (path, b, img) \<Rightarrow> PArray (astype_float32 E (divide_u8 E img 255))),
                   ''gt_occ_bw'' \<mapsto>
                     (case bw of
                        None \<Rightarrow> PNone
                      | Some (path, b, img) \<Rightarrow> PArray (astype_float32 E (divide_u8 E img 255)))))
       \<and> (\<forall>img idx.
            dtype (astype_float32 E (divide_u8 E img 255)) = Float32
            \<and> nd_shape (astype_float32 E (divide_u8 E img 255)) = u8_shape img
            \<and> nd_elem (astype_float32 E (divide_u8 E img 255)) idx =
                np_float32 E (np_true_divide E (real (unat (u8_elem img idx))) 255)
            \<and> 0 \<le> nd_elem (astype_float32 E (divide_u8 E img 255)) idx
            \<and> nd_elem (astype_float32 E (divide_u8 E img 255)) idx \<le> 1)"
proof -
  let ?s = "ensure_client E self"
  have tr: "snd (transform E self results) =
      (case (if sparse self then load_sparse_flow E ?s results else load_flow E ?s results) of
         Inl e \<Rightarrow> Inl e
       | Inr r \<Rightarrow> load_occ E ?s r)"
    using assms(1) by (simp add: transform_def Let_def ensure_client_flags cong: sum.case_cong)
  have occ: "snd (transform E self results) = load_occ E ?s r1"
    unfolding tr assms(2) by simp
  have "load_occ E ?s r1 =
      (case (if dict_get r1 ''occ_fw_path'' \<noteq> PNone
             then read_occ E ?s (dict_get r1 ''occ_fw_path'') else Inr PNone) of
         Inl e \<Rightarrow> Inl e
       | Inr occ_fw \<Rightarrow>
           (case (if dict_get r1 ''occ_bw_path'' \<noteq> PNone
                  then read_occ E ?s (dict_get r1 ''occ_bw_path'') else Inr PNone) of
              Inl e \<Rightarrow> Inl e
            | Inr occ_bw \<Rightarrow> Inr (r1(''gt_occ_fw'' \<mapsto> occ_fw, ''gt_occ_bw'' \<mapsto> occ_bw))))"
    by (simp only: load_occ_def Let_def)
  also have "\<dots> = Inr (r1(''gt_occ_fw'' \<mapsto>
                     (case fw of
                        None \<Rightarrow> PNone
                      | Some (path, b, img) \<Rightarrow> PArray (astype_float32 E (divide_u8 E img 255))),
                   ''gt_occ_bw'' \<mapsto>
                     (case bw of
                        None \<Rightarrow> PNone
                      | Some (path, b, img) \<Rightarrow> PArray (astype_float32 E (divide_u8 E img 255)))))"
    unfolding occ_branch [OF assms(3)] occ_branch [OF assms(4)] by simp
  finally have res: "load_occ E ?s r1 = Inr (r1(''gt_occ_fw'' \<mapsto>
                     (case fw of
                        None \<Rightarrow> PNone
                      | Some (path, b, img) \<Rightarrow> PArray (astype_float32 E (divide_u8 E img 255))),
                   ''gt_occ_bw'' \<mapsto>
                     (case bw of
                        None \<Rightarrow> PNone
                      | Some (path, b, img) \<Rightarrow> PArray (astype_float32 E (divide_u8 E img 255)))))" .
  show ?thesis
    using res normalised_mask [OF assms(5,6)] unfolding occ by blast
qed

text \<open>
  Claim C9. With \<open>gamma = 1\<close> every weight \<open>gamma ^ (N - 1 - i)\<close> is 1 and the sequence
  loss is the sum of the per-iteration losses.
\<close>

theorem sequence_loss_gamma_one:
  "sequence_loss loss 1 preds gt = (\<Sum>p\<leftarrow>preds. loss p gt)
   \<and> (\<forall>i. sequence_weight 1 (length preds) i = 1)"
proof -
  have "map (\<lambda>i. loss (preds ! i) gt) [0..<length preds] =
      map (\<lambda>p. loss p gt) (map ((!) preds) [0..<length preds])"
    by (simp add: comp_def del: map_nth)
  also have "\<dots> = map (\<lambda>p. loss p gt) preds"
    by (simp only: map_nth)
  finally show ?thesis
    by (simp add: sequence_loss_def sequence_weight_def)
qed

text \<open>
  A record with both flow paths, in sparse mode: the backward flow is \<^verbatim>\<open>None\<close>.
\<close>

theorem sparse_loads_forward_flow_only_witness:
  "sparse (init_LoadAnnotations None (Some True) None)
   \<and> snd (transform example_extern (init_LoadAnnotations None (Some True) None)
            [''flow_fw_path'' \<mapsto> PStr ''flow.png'', ''flow_bw_path'' \<mapsto> PStr ''flow.png'']) =
       Inr ([''flow_fw_path'' \<mapsto> PStr ''flow.png'', ''flow_bw_path'' \<mapsto> PStr ''flow.png'',
             ''gt_flow_fw'' \<mapsto> PArray example_flow, ''gt_flow_bw'' \<mapsto> PNone,
             ''gt_valid'' \<mapsto> PArray example_valid])"
proof -
  let ?self = "init_LoadAnnotations None (Some True) None"
  let ?R = "[''flow_fw_path'' \<mapsto> PStr ''flow.png'', ''flow_bw_path'' \<mapsto> PStr ''flow.png'']"
  have h1: "sparse ?self" and h5: "\<not> with_occ ?self"
    by (simp_all add: init_LoadAnnotations_def)
  have h2: "?R ''flow_fw_path'' = Some (PStr ''flow.png'')"
    by simp
  have "file_client (ensure_client example_extern ?self) =
      Some (FileClient example_extern [(''backend'', ''disk'')])"
    by (simp add: ensure_client_def init_LoadAnnotations_def)
  moreover have "FileClient example_extern [(''backend'', ''disk'')] ''flow.png'' = Inr [1, 2]"
    by (simp add: example_extern_def)
  ultimately have h3: "client_get (ensure_client example_extern ?self) (PStr ''flow.png'')
      = Inr [1, 2]"
    by (simp add: client_get_def)
  have h4: "sparse_flow_from_bytes example_extern [1, 2] = Inr (example_flow, example_valid)"
    by (simp add: example_extern_def)
  have "snd (transform example_extern ?self ?R) =
      Inr (?R(''gt_flow_fw'' \<mapsto> PArray example_flow, ''gt_flow_bw'' \<mapsto> PNone,
              ''gt_valid'' \<mapsto> PArray example_valid))"
    using sparse_loads_forward_flow_only [of ?self ?R "''flow.png''" example_extern "[1, 2]"
        example_flow example_valid, OF h1 h2 h3 h4] h5 by blast
  with h1 show ?thesis
    by (intro conjI)
qed

text \<open>
  Dense mode with the occlusion flag, a record with a forward occlusion path only: the
  pixels 255 and 51 become 1 and 1/5.
\<close>

theorem occlusion_masks_normalised_witness:
  "with_occ (init_LoadAnnotations (Some True) None None)
   \<and> snd (transform example_extern (init_LoadAnnotations (Some True) None None)
            [''occ_fw_path'' \<mapsto> PStr ''occ.png'']) =
       Inr ([''occ_fw_path'' \<mapsto> PStr ''occ.png'',
             ''gt_flow_fw'' \<mapsto> PNone, ''gt_flow_bw'' \<mapsto> PNone,
             ''gt_occ_fw'' \<mapsto>
                PArray (astype_float32 example_extern (divide_u8 example_extern example_image 255)),
             ''gt_occ_bw'' \<mapsto> PNone])
   \<and> dtype (astype_float32 example_extern (divide_u8 example_extern example_image 255)) = Float32
   \<and> nd_elem (astype_float32 example_extern (divide_u8 example_extern example_image 255)) [0, 0] = 1
   \<and> nd_elem (astype_float32 example_extern (divide_u8 example_extern example_image 255)) [0, 1]
       = 1 / 5"
proof -
  let ?self = "init_LoadAnnotations (Some True) None None"
  let ?results = "[''occ_fw_path'' \<mapsto> PStr ''occ.png'']"
  let ?r1 = "?results(''gt_flow_fw'' \<mapsto> PNone, ''gt_flow_bw'' \<mapsto> PNone)"
  have occ: "with_occ ?self" and dense: "\<not> sparse ?self"
    by (simp_all add: init_LoadAnnotations_def)
  have flow: "(if sparse ?self then load_sparse_flow example_extern (ensure_client example_extern ?self) ?results
      else load_flow example_extern (ensure_client example_extern ?self) ?results) = Inr ?r1"
    using dense by (simp add: load_flow_absent dict_get_def)
  have fw: "case Some (''occ.png'', [3], example_image) of
        None \<Rightarrow> dict_get ?r1 ''occ_fw_path'' = PNone
      | Some (path, b, img) \<Rightarrow>
          dict_get ?r1 ''occ_fw_path'' = PStr path
          \<and> client_get (ensure_client example_extern ?self) (PStr path) = Inr b
          \<and> imfrombytes example_extern b Grayscale = Inr (Some img)"
    by (simp add: dict_get_def client_get_def ensure_client_def init_LoadAnnotations_def
          example_extern_def)
  have bw: "case (None :: (string \<times> bytes \<times> uint8_array) option) of
        None \<Rightarrow> dict_get ?r1 ''occ_bw_path'' = PNone
      | Some (path, b, img) \<Rightarrow>
          dict_get ?r1 ''occ_bw_path'' = PStr path
          \<and> client_get (ensure_client example_extern ?self) (PStr path) = Inr b
          \<and> imfrombytes example_extern b Grayscale = Inr (Some img)"
    by (simp add: dict_get_def)
  have d: "\<forall>x. 0 \<le> x \<and> x \<le> 255 \<longrightarrow>
      0 \<le> np_true_divide example_extern x 255 \<and> np_true_divide example_extern x 255 \<le> 1"
    by (simp add: example_extern_def)
  have c: "\<forall>y. 0 \<le> y \<and> y \<le> 1 \<longrightarrow> 0 \<le> np_float32 example_extern y \<and> np_float32 example_extern y \<le> 1"
    by (simp add: example_extern_def)
  have vals: "nd_elem (astype_float32 example_extern (divide_u8 example_extern example_image 255)) [0, 0] = 1"
    "nd_elem (astype_float32 example_extern (divide_u8 example_extern example_image 255)) [0, 1] = 1 / 5"
    by (simp_all add: astype_float32_def divide_u8_def example_extern_def example_image_def)
  have res: "snd (transform example_extern ?self ?results) =
      Inr (?r1(''gt_occ_fw'' \<mapsto>
                 PArray (astype_float32 example_extern (divide_u8 example_extern example_image 255)),
               ''gt_occ_bw'' \<mapsto> PNone))"
    and ty: "dtype (astype_float32 example_extern (divide_u8 example_extern example_image 255))
      = Float32"
    using occlusion_masks_normalised [where self = ?self and E = example_extern
        and results = ?results and ?r1.0 = ?r1 and fw = "Some (''occ.png'', [3], example_image)"
        and bw = None, OF occ flow fw bw d c]
    by simp_all
  show ?thesis
    by (intro conjI occ res ty vals)
qed

end
